theory Spec2Isabelle
  imports Complex_Main "HOL-Library.Word"
begin

section \<open>Python values, errors and numpy arrays\<close>

text \<open>
  Exceptions of the Python source are values of the type \<open>error\<close>; a function that may
  raise returns \<open>error + 'a\<close>, with \<open>Inl\<close> for the exception. Python floats are
  modelled as reals: rounding of the floating-point operations is abstracted.
\<close>

datatype error =
    ValueError string
  | AttributeError string
  | TypeError
  | IndexError
  | KeyError string
  | StopIteration
  | UnboundLocalError string
  | ZeroDivisionError

type_synonym uint32 = "32 word"
type_synonym int8 = "8 word"

type_synonym 'a array3 = "'a list list list"
type_synonym 'a array4 = "'a list list list list"

text \<open>
  numpy index normalisation along one dimension of length \<open>n\<close>: an index in
  \<open>[0, n)\<close> is taken as it is, an index in \<open>[-n, 0)\<close> counts from the end, anything
  else raises IndexError.
\<close>

definition np_index :: "nat \<Rightarrow> int \<Rightarrow> error + nat" where
  "np_index n i =
     (if 0 \<le> i \<and> i < int n then Inr (nat i)
      else if - int n \<le> i \<and> i < 0 then Inr (nat (i + int n))
      else Inl IndexError)"

definition get3 :: "'a array3 \<Rightarrow> int \<Rightarrow> int \<Rightarrow> int \<Rightarrow> error + 'a" where
  "get3 A i j k =
     (case np_index (length A) i of Inl e \<Rightarrow> Inl e | Inr i' \<Rightarrow>
      (case np_index (length (A ! i')) j of Inl e \<Rightarrow> Inl e | Inr j' \<Rightarrow>
      (case np_index (length (A ! i' ! j')) k of Inl e \<Rightarrow> Inl e | Inr k' \<Rightarrow>
        Inr (A ! i' ! j' ! k'))))"


definition get4 :: "'a array4 \<Rightarrow> int \<Rightarrow> int \<Rightarrow> int \<Rightarrow> int \<Rightarrow> error + 'a" where
  "get4 A c i j k =
     (case np_index (length A) c of Inl e \<Rightarrow> Inl e | Inr c' \<Rightarrow> get3 (A ! c') i j k)"


text \<open>
  \<open>np.ones\<close> and \<open>np.zeros\<close> with a three- or four-dimensional shape: a negative
  dimension raises ValueError.
\<close>

definition np_full3 :: "'a \<Rightarrow> int \<Rightarrow> int \<Rightarrow> int \<Rightarrow> error + 'a array3" where
  "np_full3 v a b c =
     (if a < 0 \<or> b < 0 \<or> c < 0 then Inl (ValueError ''negative dimensions are not allowed'')
      else Inr (replicate (nat a) (replicate (nat b) (replicate (nat c) v))))"

definition np_full4 :: "'a \<Rightarrow> int \<Rightarrow> int \<Rightarrow> int \<Rightarrow> int \<Rightarrow> error + 'a array4" where
  "np_full4 v m a b c =
     (if m < 0 \<or> a < 0 \<or> b < 0 \<or> c < 0
      then Inl (ValueError ''negative dimensions are not allowed'')
      else Inr (replicate (nat m) (replicate (nat a) (replicate (nat b) (replicate (nat c) v)))))"

text \<open>An array has the numpy shape \<open>(a, b, c)\<close>.\<close>

definition has_shape :: "'a array3 \<Rightarrow> int \<Rightarrow> int \<Rightarrow> int \<Rightarrow> bool" where
  "has_shape A a b c \<longleftrightarrow>
     int (length A) = a \<and>
     list_all (\<lambda>r. int (length r) = b \<and> list_all (\<lambda>s. int (length s) = c) r) A"

section \<open>The grid (grid.py)\<close>

text \<open>
  Sources and receivers carry an integer cell position; sources add a polarisation and
  voltage sources a resistance. Only the attributes that \<open>run_model\<close> and \<open>grid.py\<close>
  read are modelled.
\<close>

record position =
  positionx :: int
  positiony :: int
  positionz :: int

record source = position +
  polarisation :: string

record voltage_source = source +
  resistance :: real

type_synonym rx = position

record snapshot =
  time :: int

record waveform =
  type :: string
  freq :: real
  uservalues :: "real list"

record material =
  ID :: string
  numID :: int
  er :: real
  se :: real
  mr :: real
  sm :: real
  average :: bool
  deltaer :: "real list"
  tau :: "real list"

text \<open>
  The attributes of \<open>FDTDGrid\<close>. The geometry arrays \<open>solid\<close>, \<open>rigidE\<close>, \<open>rigidH\<close>,
  \<open>IDlookup\<close> and \<open>ID\<close> are created by \<open>initialise_geometry_arrays\<close>; before that
  call the record holds empty arrays for them.
\<close>

record grid =
  nx :: int
  ny :: int
  nz :: int
  dx :: real
  dy :: real
  dz :: real
  dt :: real
  iterations :: int
  nthreads :: int
  materials :: "material list"
  waveforms :: "waveform list"
  voltagesources :: "voltage_source list"
  hertziandipoles :: "source list"
  magneticdipoles :: "source list"
  transmissionlines :: "source list"
  rxs :: "rx list"
  srcstepx :: int
  srcstepy :: int
  srcstepz :: int
  rxstepx :: int
  rxstepy :: int
  rxstepz :: int
  snapshots :: "snapshot list"
  solid :: "uint32 array3"
  rigidE :: "int8 array4"
  rigidH :: "int8 array4"
  IDlookup :: "(string \<times> int) list"
  ID :: "uint32 array4"

subsection \<open>within_bounds and calculate_coord\<close>

text \<open>
  \<open>getattr(self, 'n' + co)\<close>: the attributes of the grid whose names start with
  \<open>n\<close> are \<open>nx\<close>, \<open>ny\<close>, \<open>nz\<close>, \<open>nthreads\<close> and the three methods
  \<open>n_edges\<close>, \<open>n_nodes\<close>, \<open>n_cells\<close>. Comparing an integer with a method raises
  TypeError; any other name raises AttributeError.
\<close>

definition getattr_n :: "grid \<Rightarrow> string \<Rightarrow> error + int" where
  "getattr_n G co =
     (if co = ''x'' then Inr (nx G)
      else if co = ''y'' then Inr (ny G)
      else if co = ''z'' then Inr (nz G)
      else if co = ''threads'' then Inr (nthreads G)
      else if co = ''_edges'' \<or> co = ''_nodes'' \<or> co = ''_cells'' then Inl TypeError
      else Inl (AttributeError (''n'' @ co)))"

text \<open>
  \<open>within_bounds(**kwargs)\<close>: the keyword arguments are an association list in call
  order. The method returns nothing and assigns nothing; the model returns the grid it
  was called on, so that "the grid is unchanged" can be stated. \<open>val < 0 or \<dots>\<close>
  short-circuits, so a negative value raises before the attribute is looked up.
\<close>

fun within_bounds :: "grid \<Rightarrow> (string \<times> int) list \<Rightarrow> error + grid" where
  "within_bounds G [] = Inr G"
| "within_bounds G ((co, val) # kwargs) =
     (if val < 0 then Inl (ValueError co)
      else case getattr_n G co of
        Inl e \<Rightarrow> Inl e
      | Inr n \<Rightarrow> if val > n then Inl (ValueError co) else within_bounds G kwargs)"

text \<open>
  Modelled from the spec: \<open>round_value\<close> lives in \<open>gprMax.utilities\<close>, which is not
  among the sources. The specification says that the coordinate helper rounds
  \<open>val / d\<close> to an integer "with banker's rounding": to the nearest integer, a tie
  going to the even neighbour.
\<close>

definition round_value :: "real \<Rightarrow> int" where
  "round_value v =
     (let f = \<lfloor>v\<rfloor>; r = v - of_int f
      in if r < 1 / 2 then f
         else if 1 / 2 < r then f + 1
         else if even f then f else f + 1)"

text \<open>
  \<open>getattr(self, 'd' + coord)\<close>: the attributes whose names start with \<open>d\<close> are
  \<open>dx\<close>, \<open>dy\<close>, \<open>dz\<close> and \<open>dt\<close>.
\<close>

definition getattr_d :: "grid \<Rightarrow> string \<Rightarrow> error + real" where
  "getattr_d G coord =
     (if coord = ''x'' then Inr (dx G)
      else if coord = ''y'' then Inr (dy G)
      else if coord = ''z'' then Inr (dz G)
      else if coord = ''t'' then Inr (dt G)
      else Inl (AttributeError (''d'' @ coord)))"

definition calculate_coord :: "grid \<Rightarrow> string \<Rightarrow> real \<Rightarrow> error + int" where
  "calculate_coord G coord val =
     (case getattr_d G coord of
        Inl e \<Rightarrow> Inl e
      | Inr d \<Rightarrow> if d = 0 then Inl ZeroDivisionError else Inr (round_value (val / d)))"

subsection \<open>Geometry arrays\<close>

text \<open>
  \<open>initialise_geometry_arrays\<close>: \<open>solid\<close> and \<open>ID\<close> are filled with ones
  (\<open>np.ones\<close>, dtype uint32), the rigid arrays with zeros (\<open>np.zeros\<close>, dtype int8).
  The docstring of the method says that the solid and ID arrays are initialised to
  "free_space (one)".
\<close>

definition initialise_geometry_arrays :: "grid \<Rightarrow> error + grid" where
  "initialise_geometry_arrays G =
     (case np_full3 1 (nx G + 1) (ny G + 1) (nz G + 1) of Inl e \<Rightarrow> Inl e | Inr s \<Rightarrow>
      (case np_full4 0 12 (nx G + 1) (ny G + 1) (nz G + 1) of Inl e \<Rightarrow> Inl e | Inr rE \<Rightarrow>
      (case np_full4 0 6 (nx G + 1) (ny G + 1) (nz G + 1) of Inl e \<Rightarrow> Inl e | Inr rH \<Rightarrow>
      (case np_full4 1 6 (nx G + 1) (ny G + 1) (nz G + 1) of Inl e \<Rightarrow> Inl e | Inr i \<Rightarrow>
        Inr (G\<lparr>solid := s, rigidE := rE, rigidH := rH,
               IDlookup := [(''Ex'', 0), (''Ey'', 1), (''Ez'', 2),
                            (''Hx'', 3), (''Hy'', 4), (''Hz'', 5)],
               ID := i\<rparr>)))))"

subsection \<open>Current components\<close>

text \<open>
  \<open>Ix\<close>, \<open>Iy\<close>, \<open>Iz\<close>: the boundary test comes first and returns 0 without reading
  the arrays; otherwise the four magnetic field values are read in the order in which
  the expression names them, and a read outside an array raises IndexError.
\<close>

definition Ix :: "int \<Rightarrow> int \<Rightarrow> int \<Rightarrow> real array3 \<Rightarrow> real array3 \<Rightarrow> grid \<Rightarrow> error + real" where
  "Ix x y z Hy Hz G =
     (if y = 0 \<or> z = 0 then Inr 0
      else case get3 Hy x y (z - 1) of Inl e \<Rightarrow> Inl e | Inr a \<Rightarrow>
           (case get3 Hy x y z of Inl e \<Rightarrow> Inl e | Inr b \<Rightarrow>
           (case get3 Hz x y z of Inl e \<Rightarrow> Inl e | Inr c \<Rightarrow>
           (case get3 Hz x (y - 1) z of Inl e \<Rightarrow> Inl e | Inr d \<Rightarrow>
             Inr (dy G * (a - b) + dz G * (c - d))))))"

definition Iy :: "int \<Rightarrow> int \<Rightarrow> int \<Rightarrow> real array3 \<Rightarrow> real array3 \<Rightarrow> grid \<Rightarrow> error + real" where
  "Iy x y z Hx Hz G =
     (if x = 0 \<or> z = 0 then Inr 0
      else case get3 Hx x y z of Inl e \<Rightarrow> Inl e | Inr a \<Rightarrow>
           (case get3 Hx x y (z - 1) of Inl e \<Rightarrow> Inl e | Inr b \<Rightarrow>
           (case get3 Hz (x - 1) y z of Inl e \<Rightarrow> Inl e | Inr c \<Rightarrow>
           (case get3 Hz x y z of Inl e \<Rightarrow> Inl e | Inr d \<Rightarrow>
             Inr (dx G * (a - b) + dz G * (c - d))))))"

definition Iz :: "int \<Rightarrow> int \<Rightarrow> int \<Rightarrow> real array3 \<Rightarrow> real array3 \<Rightarrow> grid \<Rightarrow> error + real" where
  "Iz x y z Hx Hy G =
     (if x = 0 \<or> y = 0 then Inr 0
      else case get3 Hx x (y - 1) z of Inl e \<Rightarrow> Inl e | Inr a \<Rightarrow>
           (case get3 Hx x y z of Inl e \<Rightarrow> Inl e | Inr b \<Rightarrow>
           (case get3 Hy x y z of Inl e \<Rightarrow> Inl e | Inr c \<Rightarrow>
           (case get3 Hy (x - 1) y z of Inl e \<Rightarrow> Inl e | Inr d \<Rightarrow>
             Inr (dx G * (a - b) + dy G * (c - d))))))"

subsection \<open>Numerical dispersion check\<close>

text \<open>
  The value \<open>dispersion_check\<close> returns: Python's \<open>False\<close>, a finite float, or a
  float that is infinite or not a number.
\<close>

datatype resolution = RFalse | RFloat real | RNonFinite

text \<open>Python's \<open>max\<close> of a list: ValueError on the empty list.\<close>

definition py_max :: "real list \<Rightarrow> error + real" where
  "py_max xs =
     (case xs of
        [] \<Rightarrow> Inl (ValueError ''max() arg is an empty sequence'')
      | x # ys \<Rightarrow> Inr (fold max ys x))"

text \<open>
  The loop over the waveforms. For a waveform that is neither a sine nor an impulse the
  source takes the frequency 60 dB below the peak of the FFT power spectrum of the
  waveform's samples (lines 169 to 192); numpy's FFT is not modelled, and that
  computation is the parameter \<open>spectrum\<close>, which may raise.
\<close>

fun find_maxfreqs ::
  "(grid \<Rightarrow> waveform \<Rightarrow> error + real) \<Rightarrow> grid \<Rightarrow> waveform list \<Rightarrow> real list \<Rightarrow> error + real list"
where
  "find_maxfreqs spectrum G [] maxfreqs = Inr maxfreqs"
| "find_maxfreqs spectrum G (w # ws) maxfreqs =
     (if type w = ''sine'' \<or> type w = ''contsine''
      then find_maxfreqs spectrum G ws (maxfreqs @ [4 * freq w])
      else if type w \<in> set [''impulse'', ''zero'']
      then find_maxfreqs spectrum G ws maxfreqs
      else case spectrum G w of
             Inl e \<Rightarrow> Inl e
           | Inr f \<Rightarrow> find_maxfreqs spectrum G ws (maxfreqs @ [f]))"

text \<open>
  \<open>dispersion_check\<close>. The speed of light \<open>c\<close> comes from \<open>gprMax.constants\<close>, which is
  not among the sources, and is a parameter. \<open>np.sqrt\<close> of a negative number is nan and
  a numpy division by zero is inf or nan (numpy warns and does not raise), so the result
  is not finite when \<open>maxer \<le> 0\<close> or \<open>maxfreq = 0\<close>.
\<close>

definition dispersion_check ::
  "real \<Rightarrow> (grid \<Rightarrow> waveform \<Rightarrow> error + real) \<Rightarrow> grid \<Rightarrow> error + resolution" where
  "dispersion_check c spectrum G =
     (let resolvedsteps = 10 in
      case find_maxfreqs spectrum G (waveforms G) [] of
        Inl e \<Rightarrow> Inl e
      | Inr maxfreqs \<Rightarrow>
          if maxfreqs \<noteq> [] then
            (case py_max maxfreqs of Inl e \<Rightarrow> Inl e | Inr maxfreq \<Rightarrow>
             (case py_max (map er (materials G)) of Inl e \<Rightarrow> Inl e | Inr maxer \<Rightarrow>
               if maxer \<le> 0 \<or> maxfreq = 0 then Inr RNonFinite
               else
                 let minvelocity = c / sqrt maxer;
                     minwavelength = minvelocity / maxfreq
                 in Inr (RFloat (minwavelength / resolvedsteps))))
          else Inr RFalse)"

text \<open>\<open>get_other_directions\<close>: a dictionary lookup, KeyError for any other key.\<close>

definition get_other_directions :: "string \<Rightarrow> error + string \<times> string" where
  "get_other_directions direction =
     (if direction = ''x'' then Inr (''y'', ''z'')
      else if direction = ''y'' then Inr (''x'', ''z'')
      else if direction = ''z'' then Inr (''x'', ''y'')
      else Inl (KeyError direction))"

text \<open>A grid with every list empty and every number zero, as \<open>FDTDGrid()\<close> creates it.\<close>

definition FDTDGrid :: grid where
  "FDTDGrid =
     \<lparr>nx = 0, ny = 0, nz = 0, dx = 0, dy = 0, dz = 0, dt = 0, iterations = 0, nthreads = 0,
      materials = [], waveforms = [], voltagesources = [], hertziandipoles = [],
      magneticdipoles = [], transmissionlines = [], rxs = [],
      srcstepx = 0, srcstepy = 0, srcstepz = 0, rxstepx = 0, rxstepy = 0, rxstepz = 0,
      snapshots = [], solid = [], rigidE = [], rigidH = [], IDlookup = [], ID = []\<rparr>"

section \<open>Running a model (gprMax.py)\<close>

subsection \<open>Materials of voltage sources with resistance\<close>







subsection \<open>Stepping sources and receivers between model runs\<close>

text \<open>
  Lines 364 to 373. \<open>itertools.chain\<close> runs over the Hertzian dipoles, the magnetic
  dipoles and the voltage sources; the list \<open>transmissionlines\<close> of the grid is not
  part of the chain.
\<close>

definition step_source :: "int \<Rightarrow> grid \<Rightarrow> 'a position_scheme \<Rightarrow> 'a position_scheme" where
  "step_source modelrun G source =
     source\<lparr>positionx := positionx source + (modelrun - 1) * srcstepx G,
            positiony := positiony source + (modelrun - 1) * srcstepy G,
            positionz := positionz source + (modelrun - 1) * srcstepz G\<rparr>"

definition step_receiver :: "int \<Rightarrow> grid \<Rightarrow> rx \<Rightarrow> rx" where
  "step_receiver modelrun G receiver =
     receiver\<lparr>positionx := positionx receiver + (modelrun - 1) * rxstepx G,
              positiony := positiony receiver + (modelrun - 1) * rxstepy G,
              positionz := positionz receiver + (modelrun - 1) * rxstepz G\<rparr>"

definition adjust_positions :: "int \<Rightarrow> grid \<Rightarrow> grid" where
  "adjust_positions modelrun G =
     (let G1 = (if srcstepx G > 0 \<or> srcstepy G > 0 \<or> srcstepz G > 0
                then G\<lparr>hertziandipoles := map (step_source modelrun G) (hertziandipoles G),
                       magneticdipoles := map (step_source modelrun G) (magneticdipoles G),
                       voltagesources := map (step_source modelrun G) (voltagesources G)\<rparr>
                else G)
      in if rxstepx G1 > 0 \<or> rxstepy G1 > 0 \<or> rxstepz G1 > 0
         then G1\<lparr>rxs := map (step_receiver modelrun G1) (rxs G1)\<rparr>
         else G1)"

subsection \<open>The main FDTD loop\<close>

text \<open>
  The field arrays, as \<open>initialise_field_arrays\<close> creates them. An element is a finite
  number, an infinity or a nan.
\<close>

datatype float64 = Finite real | Inf | NaN

record field_arrays =
  Ex_array :: "float64 array3"
  Ey_array :: "float64 array3"
  Ez_array :: "float64 array3"
  Hx_array :: "float64 array3"
  Hy_array :: "float64 array3"
  Hz_array :: "float64 array3"

definition initialise_field_arrays :: "grid \<Rightarrow> error + field_arrays" where
  "initialise_field_arrays G =
     (case np_full3 (Finite 0) (nx G) (ny G + 1) (nz G + 1) of Inl e \<Rightarrow> Inl e | Inr ex \<Rightarrow>
      (case np_full3 (Finite 0) (nx G + 1) (ny G) (nz G + 1) of Inl e \<Rightarrow> Inl e | Inr ey \<Rightarrow>
      (case np_full3 (Finite 0) (nx G + 1) (ny G + 1) (nz G) of Inl e \<Rightarrow> Inl e | Inr ez \<Rightarrow>
      (case np_full3 (Finite 0) (nx G + 1) (ny G) (nz G) of Inl e \<Rightarrow> Inl e | Inr hx \<Rightarrow>
      (case np_full3 (Finite 0) (nx G) (ny G + 1) (nz G) of Inl e \<Rightarrow> Inl e | Inr hy \<Rightarrow>
      (case np_full3 (Finite 0) (nx G) (ny G) (nz G + 1) of Inl e \<Rightarrow> Inl e | Inr hz \<Rightarrow>
        Inr \<lparr>Ex_array = ex, Ey_array = ey, Ez_array = ez,
             Hx_array = hx, Hy_array = hy, Hz_array = hz\<rparr>))))))"

fun isfinite :: "float64 \<Rightarrow> bool" where
  "isfinite (Finite v) = True"
| "isfinite Inf = False"
| "isfinite NaN = False"

definition nonfinite_in :: "float64 array3 \<Rightarrow> bool" where
  "nonfinite_in A = list_ex (list_ex (list_ex (\<lambda>v. \<not> isfinite v))) A"

definition has_nonfinite :: "field_arrays \<Rightarrow> bool" where
  "has_nonfinite F \<longleftrightarrow>
     nonfinite_in (Ex_array F) \<or> nonfinite_in (Ey_array F) \<or> nonfinite_in (Ez_array F) \<or>
     nonfinite_in (Hx_array F) \<or> nonfinite_in (Hy_array F) \<or> nonfinite_in (Hz_array F)"

text \<open>
  The calls that the loop body makes, one constructor for each function or method it
  calls. The update kernels, the PML corrections, the sources' \<open>update_fields\<close> and the
  output writers live in modules that are not among the sources; a call carries the
  arguments that vary from call to call (the timestep, the absolute time, the source
  or the snapshot, the number of poles).
\<close>

datatype call =
    write_output nat
  | write_snapshot snapshot
  | update_ex_dispersive_1pole_A
  | update_ey_dispersive_1pole_A
  | update_ez_dispersive_1pole_A
  | update_ex_dispersive_multipole_A int
  | update_ey_dispersive_multipole_A int
  | update_ez_dispersive_multipole_A int
  | update_ex
  | update_ey
  | update_ez
  | update_pml_electric
  | voltagesource_update_fields voltage_source real nat
  | hertziandipole_update_fields source real nat
  | update_ex_dispersive_1pole_B
  | update_ey_dispersive_1pole_B
  | update_ez_dispersive_1pole_B
  | update_ex_dispersive_multipole_B int
  | update_ey_dispersive_multipole_B int
  | update_ez_dispersive_multipole_B int
  | update_hx
  | update_hy
  | update_hz
  | update_pml_magnetic
  | magneticdipole_update_fields source real nat

text \<open>
  The state of the loop: the accumulator \<open>abstime\<close>, everything the called functions
  may write (field arrays, auxiliary arrays, files), and the calls made so far. What a
  call does to the arrays is the parameter \<open>K\<close>; the calls are taken to return and to
  leave the lists of sources and snapshots, \<open>dt\<close> and \<open>maxpoles\<close> alone.
\<close>

record 'f loop_state =
  abstime :: real
  arrays :: 'f
  calls :: "call list"

definition perform :: "(call \<Rightarrow> 'f \<Rightarrow> 'f) \<Rightarrow> call \<Rightarrow> 'f loop_state \<Rightarrow> 'f loop_state" where
  "perform K c st = st\<lparr>arrays := K c (arrays st), calls := calls st @ [c]\<rparr>"

text \<open>
  The body of the loop for one timestep (lines 386 to 449), statement by statement.
  \<open>maxpoles\<close> is the class attribute \<open>Material.maxpoles\<close>. The timing and progress
  output of lines 383, 384 and 451 to 459 is left out.
\<close>

definition timestep_body ::
  "(call \<Rightarrow> 'f \<Rightarrow> 'f) \<Rightarrow> grid \<Rightarrow> int \<Rightarrow> nat \<Rightarrow> 'f loop_state \<Rightarrow> 'f loop_state" where
  "timestep_body K G maxpoles timestep st0 =
     (let st1 = perform K (write_output timestep) st0;
          st2 = (if snapshots G \<noteq> []
                 then fold (\<lambda>snapshot st.
                        if time snapshot = int timestep + 1
                        then perform K (write_snapshot snapshot) st else st) (snapshots G) st1
                 else st1);
          st3 = (if maxpoles = 1
                 then fold (perform K) [update_ex_dispersive_1pole_A,
                                        update_ey_dispersive_1pole_A,
                                        update_ez_dispersive_1pole_A] st2
                 else if maxpoles > 1
                 then fold (perform K) [update_ex_dispersive_multipole_A maxpoles,
                                        update_ey_dispersive_multipole_A maxpoles,
                                        update_ez_dispersive_multipole_A maxpoles] st2
                 else fold (perform K) [update_ex, update_ey, update_ez] st2);
          st4 = perform K update_pml_electric st3;
          st5 = (if voltagesources G \<noteq> []
                 then fold (\<lambda>v st. perform K (voltagesource_update_fields v (abstime st) timestep) st)
                        (voltagesources G) st4
                 else st4);
          st6 = (if hertziandipoles G \<noteq> []
                 then fold (\<lambda>h st. perform K (hertziandipole_update_fields h (abstime st) timestep) st)
                        (hertziandipoles G) st5
                 else st5);
          st7 = (if maxpoles = 1
                 then fold (perform K) [update_ex_dispersive_1pole_B,
                                        update_ey_dispersive_1pole_B,
                                        update_ez_dispersive_1pole_B] st6
                 else if maxpoles > 1
                 then fold (perform K) [update_ex_dispersive_multipole_B maxpoles,
                                        update_ey_dispersive_multipole_B maxpoles,
                                        update_ez_dispersive_multipole_B maxpoles] st6
                 else st6);
          st8 = st7\<lparr>abstime := abstime st7 + 0.5 * dt G\<rparr>;
          st9 = fold (perform K) [update_hx, update_hy, update_hz] st8;
          st10 = perform K update_pml_magnetic st9;
          st11 = (if magneticdipoles G \<noteq> []
                  then fold (\<lambda>m st. perform K (magneticdipole_update_fields m (abstime st) timestep) st)
                         (magneticdipoles G) st10
                  else st10)
      in st11\<lparr>abstime := abstime st11 + 0.5 * dt G\<rparr>)"

text \<open>
  The loop: \<open>abstime = 0\<close>, then the body for each timestep of
  \<open>range(G.iterations)\<close>, which is empty for a negative number of iterations.
\<close>

definition main_loop :: "(call \<Rightarrow> 'f \<Rightarrow> 'f) \<Rightarrow> grid \<Rightarrow> int \<Rightarrow> 'f \<Rightarrow> 'f loop_state" where
  "main_loop K G maxpoles F =
     fold (timestep_body K G maxpoles) [0..<nat (iterations G)]
       \<lparr>abstime = 0, arrays = F, calls = []\<rparr>"

text \<open>
  The calls of timestep \<open>n\<close> when the accumulator holds \<open>t\<close> at its start, in the
  order of the loop body.
\<close>

definition step_calls :: "grid \<Rightarrow> int \<Rightarrow> nat \<Rightarrow> real \<Rightarrow> call list" where
  "step_calls G maxpoles n t =
     [write_output n] @
     map write_snapshot (filter (\<lambda>s. time s = int n + 1) (snapshots G)) @
     (if maxpoles = 1
      then [update_ex_dispersive_1pole_A, update_ey_dispersive_1pole_A, update_ez_dispersive_1pole_A]
      else if maxpoles > 1
      then [update_ex_dispersive_multipole_A maxpoles, update_ey_dispersive_multipole_A maxpoles,
            update_ez_dispersive_multipole_A maxpoles]
      else [update_ex, update_ey, update_ez]) @
     [update_pml_electric] @
     map (\<lambda>v. voltagesource_update_fields v t n) (voltagesources G) @
     map (\<lambda>h. hertziandipole_update_fields h t n) (hertziandipoles G) @
     (if maxpoles = 1
      then [update_ex_dispersive_1pole_B, update_ey_dispersive_1pole_B, update_ez_dispersive_1pole_B]
      else if maxpoles > 1
      then [update_ex_dispersive_multipole_B maxpoles, update_ey_dispersive_multipole_B maxpoles,
            update_ez_dispersive_multipole_B maxpoles]
      else []) @
     [update_hx, update_hy, update_hz, update_pml_magnetic] @
     map (\<lambda>m. magneticdipole_update_fields m (t + 0.5 * dt G) n) (magneticdipoles G)"

text \<open>The calls that update the electric field in the interior of the grid.\<close>

fun is_e_update :: "call \<Rightarrow> bool" where
  "is_e_update update_ex = True"
| "is_e_update update_ey = True"
| "is_e_update update_ez = True"
| "is_e_update update_ex_dispersive_1pole_A = True"
| "is_e_update update_ey_dispersive_1pole_A = True"
| "is_e_update update_ez_dispersive_1pole_A = True"
| "is_e_update (update_ex_dispersive_multipole_A p) = True"
| "is_e_update (update_ey_dispersive_multipole_A p) = True"
| "is_e_update (update_ez_dispersive_multipole_A p) = True"
| "is_e_update update_ex_dispersive_1pole_B = True"
| "is_e_update update_ey_dispersive_1pole_B = True"
| "is_e_update update_ez_dispersive_1pole_B = True"
| "is_e_update (update_ex_dispersive_multipole_B p) = True"
| "is_e_update (update_ey_dispersive_multipole_B p) = True"
| "is_e_update (update_ez_dispersive_multipole_B p) = True"
| "is_e_update c = False"

fun is_write_output :: "call \<Rightarrow> bool" where
  "is_write_output (write_output n) = True"
| "is_write_output c = False"

section \<open>Example inputs\<close>

text \<open>
  Magnetic field arrays of a grid of 2 by 2 by 2 cells, with distinct values, and a grid
  of one cell with unit edge lengths.
\<close>

definition hx_field :: "real array3" where
  "hx_field = [[[1, 2], [3, 4]], [[5, 6], [7, 8]], [[9, 10], [11, 12]]]"

definition hy_field :: "real array3" where
  "hy_field = [[[1, 2], [3, 4], [5, 6]], [[7, 8], [9, 10], [11, 12]]]"

definition hz_field :: "real array3" where
  "hz_field = [[[1, 2, 3], [4, 5, 6]], [[7, 8, 9], [10, 11, 12]]]"

definition unit_grid :: grid where
  "unit_grid = FDTDGrid\<lparr>nx := 1, ny := 1, nz := 1, dx := 1, dy := 1, dz := 1\<rparr>"

text \<open>The free-space material and a material of relative permittivity 4.\<close>

definition free_space :: material where
  "free_space = \<lparr>material.ID = ''free_space'', numID = 1, er = 1, se = 0, mr = 1, sm = 0,
                 average = True, deltaer = [], tau = []\<rparr>"

definition wet_sand :: material where
  "wet_sand = \<lparr>material.ID = ''wet_sand'', numID = 2, er = 4, se = 1 / 100, mr = 1, sm = 0,
               average = True, deltaer = [], tau = []\<rparr>"



definition gap_source :: voltage_source where
  "gap_source = \<lparr>positionx = 0, positiony = 1, positionz = 0, polarisation = ''x'', resistance = 50\<rparr>"



text \<open>A grid whose sources step two cells in x from one model run to the next.\<close>

definition bscan_grid :: grid where
  "bscan_grid = FDTDGrid\<lparr>srcstepx := 2,
       hertziandipoles := [\<lparr>positionx = 1, positiony = 1, positionz = 1, polarisation = ''z''\<rparr>],
       transmissionlines := [\<lparr>positionx = 4, positiony = 1, positionz = 1, polarisation = ''z''\<rparr>],
       rxs := [\<lparr>positionx = 3, positiony = 1, positionz = 1\<rparr>]\<rparr>"

text \<open>A grid of two iterations with one source of each kind and two snapshots.\<close>

definition dipole :: source where
  "dipole = \<lparr>positionx = 1, positiony = 1, positionz = 1, polarisation = ''z''\<rparr>"

definition loop_grid :: grid where
  "loop_grid = FDTDGrid\<lparr>dt := 2, iterations := 2,
       voltagesources := [gap_source], hertziandipoles := [dipole], magneticdipoles := [dipole],
       snapshots := [\<lparr>time = 2\<rparr>, \<lparr>time = 7\<rparr>]\<rparr>"

text \<open>
  A grid of two iterations with its zero-initialised field arrays, and an update of
  \<open>Ex\<close> that overwrites the array with nan, as an unstable update does.
\<close>

definition two_step_grid :: grid where
  "two_step_grid = FDTDGrid\<lparr>nx := 1, ny := 1, nz := 1, dt := 1, iterations := 2\<rparr>"

definition zero_fields :: field_arrays where
  "zero_fields =
     \<lparr>Ex_array = [[[Finite 0, Finite 0], [Finite 0, Finite 0]]],
      Ey_array = [[[Finite 0, Finite 0]], [[Finite 0, Finite 0]]],
      Ez_array = [[[Finite 0], [Finite 0]], [[Finite 0], [Finite 0]]],
      Hx_array = [[[Finite 0]], [[Finite 0]]],
      Hy_array = [[[Finite 0], [Finite 0]]],
      Hz_array = [[[Finite 0, Finite 0]]]\<rparr>"

fun unstable_kernel :: "call \<Rightarrow> field_arrays \<Rightarrow> field_arrays" where
  "unstable_kernel update_ex F = F\<lparr>Ex_array := map (map (map (\<lambda>v. NaN))) (Ex_array F)\<rparr>"
| "unstable_kernel c F = F"

section \<open>Coordinate helpers\<close>

lemma round_value_of_int: "round_value (of_int x) = x"
  by (simp add: round_value_def)

text \<open>
  Claim C8. For each axis \<open>x\<close>, \<open>y\<close>, \<open>z\<close> and every integer coordinate,
  \<open>within_bounds\<close> called with that one keyword raises \<open>ValueError\<close> carrying the axis
  name exactly when the coordinate is negative or greater than the number of cells of
  the axis; for a coordinate in the closed interval from 0 to that number it returns
  normally and the grid is the one it was called on.
\<close>

theorem within_bounds_iff:
  "\<forall>(a, n) \<in> set [(''x'', nx G), (''y'', ny G), (''z'', nz G)].
     (within_bounds G [(a, co)] = Inl (ValueError a) \<longleftrightarrow> co < 0 \<or> n < co) \<and>
     (0 \<le> co \<and> co \<le> n \<longrightarrow> within_bounds G [(a, co)] = Inr G) \<and>
     (\<forall>e. within_bounds G [(a, co)] = Inl e \<longrightarrow> e = ValueError a)"
  by (simp add: getattr_n_def)

theorem within_bounds_iff_witness:
  "within_bounds (FDTDGrid\<lparr>nx := 10\<rparr>) [(''x'', 10)] = Inr (FDTDGrid\<lparr>nx := 10\<rparr>) \<and>
   within_bounds (FDTDGrid\<lparr>nx := 10\<rparr>) [(''x'', 11)] = Inl (ValueError ''x'') \<and>
   within_bounds (FDTDGrid\<lparr>nx := 10\<rparr>) [(''x'', - 1)] = Inl (ValueError ''x'')"
  using within_bounds_iff [of "FDTDGrid\<lparr>nx := 10\<rparr>" 10]
    within_bounds_iff [of "FDTDGrid\<lparr>nx := 10\<rparr>" 11]
    within_bounds_iff [of "FDTDGrid\<lparr>nx := 10\<rparr>" "- 1"]
  by (simp add: FDTDGrid_def)

text \<open>
  Claim C9. For each axis with a positive edge length and every integer index \<open>x\<close>,
  \<open>calculate_coord\<close> applied to the metric coordinate \<open>x \<cdot> d\<close> returns \<open>x\<close>:
  the conversion from metres to cells is a left inverse of the conversion from cells
  to metres.
\<close>

theorem calculate_coord_left_inverse:
  "\<forall>(a, d) \<in> set [(''x'', dx G), (''y'', dy G), (''z'', dz G)].
     0 < d \<longrightarrow> calculate_coord G a (of_int x * d) = Inr x"
  by (simp add: calculate_coord_def getattr_d_def round_value_of_int)

theorem calculate_coord_left_inverse_witness:
  "(0::real) < 1 / 1000 \<and>
   calculate_coord (FDTDGrid\<lparr>dx := 1 / 1000\<rparr>) ''x'' (of_int 7 * (1 / 1000)) = Inr 7"
  using calculate_coord_left_inverse [of "FDTDGrid\<lparr>dx := 1 / 1000\<rparr>" 7]
  by (simp add: FDTDGrid_def)

section \<open>Geometry arrays after initialisation\<close>

lemma np_index_in_range: "0 \<le> i \<Longrightarrow> i < int n \<Longrightarrow> np_index n i = Inr (nat i)"
  by (simp add: np_index_def)

lemma get3_replicate:
  assumes "0 \<le> i" "i < int a" "0 \<le> j" "j < int b" "0 \<le> k" "k < int c"
  shows "get3 (replicate a (replicate b (replicate c v))) i j k = Inr v"
  using assms by (simp add: get3_def np_index_in_range)

lemma get4_replicate:
  assumes "0 \<le> m" "m < int n" "0 \<le> i" "i < int a" "0 \<le> j" "j < int b" "0 \<le> k" "k < int c"
  shows "get4 (replicate n (replicate a (replicate b (replicate c v)))) m i j k = Inr v"
  using assms by (simp add: get4_def np_index_in_range get3_replicate)

text \<open>
  Claim C7, as the code has it. On a grid with non-negative cell counts
  \<open>initialise_geometry_arrays\<close> returns, and afterwards every entry of the solid array
  (indices 0 to nx, 0 to ny, 0 to nz) and every entry of the ID array (six components
  over the same indices) is 1, the index that the method's docstring gives to free
  space; no entry is 0.
\<close>

theorem initialise_geometry_arrays_ones:
  assumes "0 \<le> nx G" "0 \<le> ny G" "0 \<le> nz G"
  shows "\<exists>G'. initialise_geometry_arrays G = Inr G' \<and>
           (\<forall>i\<in>{0..nx G}. \<forall>j\<in>{0..ny G}. \<forall>k\<in>{0..nz G}.
              get3 (solid G') i j k = Inr 1 \<and>
              (\<forall>c\<in>{0..5}. get4 (ID G') c i j k = Inr 1))"
proof -
  let ?s = "replicate (nat (nx G + 1)) (replicate (nat (ny G + 1)) (replicate (nat (nz G + 1)) (1::uint32)))"
  let ?G = "G\<lparr>solid := ?s,
      rigidE := replicate 12 (replicate (nat (nx G + 1)) (replicate (nat (ny G + 1)) (replicate (nat (nz G + 1)) 0))),
      rigidH := replicate 6 (replicate (nat (nx G + 1)) (replicate (nat (ny G + 1)) (replicate (nat (nz G + 1)) 0))),
      IDlookup := [(''Ex'', 0), (''Ey'', 1), (''Ez'', 2), (''Hx'', 3), (''Hy'', 4), (''Hz'', 5)],
      ID := replicate 6 ?s\<rparr>"
  have run: "initialise_geometry_arrays G = Inr ?G"
    using assms by (simp add: initialise_geometry_arrays_def np_full3_def np_full4_def)
  have "get3 (solid ?G) i j k = Inr 1 \<and> (\<forall>c\<in>{0..5}. get4 (ID ?G) c i j k = Inr 1)"
    if "i \<in> {0..nx G}" "j \<in> {0..ny G}" "k \<in> {0..nz G}" for i j k
    using that by (simp add: get3_replicate get4_replicate)
  with run show ?thesis by blast
qed

theorem initialise_geometry_arrays_ones_witness:
  "\<exists>G'. initialise_geometry_arrays (FDTDGrid\<lparr>nx := 1, ny := 2, nz := 1\<rparr>) = Inr G' \<and>
     get3 (solid G') 1 2 1 = Inr 1 \<and> get4 (ID G') 5 1 2 1 = Inr 1"
  using initialise_geometry_arrays_ones [of "FDTDGrid\<lparr>nx := 1, ny := 2, nz := 1\<rparr>"]
  by (simp add: FDTDGrid_def) fastforce

text \<open>
  The claim as the specification words it (every entry is the catalogue index 0) fails
  on the grid that \<open>FDTDGrid()\<close> creates: its single solid entry and its six ID entries
  are 1.
\<close>

theorem initialise_geometry_arrays_not_zero:
  "map_sum id solid (initialise_geometry_arrays FDTDGrid) = Inr [[[1]]] \<and>
   map_sum id ID (initialise_geometry_arrays FDTDGrid) = Inr (replicate 6 [[[1]]]) \<and>
   map_sum id solid (initialise_geometry_arrays FDTDGrid) \<noteq> Inr [[[0]]] \<and>
   map_sum id ID (initialise_geometry_arrays FDTDGrid) \<noteq> Inr (replicate 6 [[[0]]])"
  by (simp add: initialise_geometry_arrays_def np_full3_def np_full4_def FDTDGrid_def)

section \<open>Current components\<close>

lemma get3_shape:
  assumes "has_shape A a b c" "0 \<le> i" "0 \<le> j" "0 \<le> k"
  shows "get3 A i j k =
           (if i < a \<and> j < b \<and> k < c then Inr (A ! nat i ! nat j ! nat k) else Inl IndexError)"
proof -
  have la: "int (length A) = a" using assms(1) by (simp add: has_shape_def)
  have lb: "int (length (A ! n)) = b" if "n < length A" for n
    using assms(1) that by (simp add: has_shape_def list_all_length)
  have lc: "int (length (A ! n ! m)) = c" if "n < length A" "m < length (A ! n)" for n m
    using assms(1) that by (simp add: has_shape_def list_all_length)
  show ?thesis
  proof (cases "i < a")
    case False
    then show ?thesis using la assms(2) by (simp add: get3_def np_index_def)
  next
    case ia: True
    then have ni: "nat i < length A" using la assms(2) by linarith
    have pi: "np_index (length A) i = Inr (nat i)" using ia la assms(2) by (simp add: np_index_def)
    show ?thesis
    proof (cases "j < b")
      case False
      then show ?thesis using pi lb [OF ni] assms(3) by (simp add: get3_def np_index_def)
    next
      case jb: True
      then have nj: "nat j < length (A ! nat i)" using lb [OF ni] assms(3) by linarith
      have pj: "np_index (length (A ! nat i)) j = Inr (nat j)"
        using jb lb [OF ni] assms(3) by (simp add: np_index_def)
      show ?thesis
        using ia jb pi pj lc [OF ni nj] assms(4) by (simp add: get3_def np_index_def)
    qed
  qed
qed

text \<open>
  Claim C4, as the code has it. Each current component is exactly 0 when one of its two
  transverse coordinates is 0 (for \<open>Ix\<close>: \<open>y = 0\<close> or \<open>z = 0\<close>; for \<open>Iy\<close>:
  \<open>x = 0\<close> or \<open>z = 0\<close>; for \<open>Iz\<close>: \<open>x = 0\<close> or \<open>y = 0\<close>). Let the magnetic field
  arrays have the shapes of the grid (\<open>Hx\<close>: nx + 1 by ny by nz, \<open>Hy\<close>: nx by ny + 1
  by nz, \<open>Hz\<close>: nx by ny by nz + 1) and let the position be a grid position, with
  \<open>x\<close> from 0 to nx, \<open>y\<close> from 0 to ny and \<open>z\<close> from 0 to nz. Outside the zero case
  the component is the line integral of the four surrounding magnetic field values,
  scaled by the edge lengths, where \<open>x < nx\<close>, \<open>y < ny\<close> and \<open>z < nz\<close>; at the
  other positions, on an upper face of the grid, one of the four values lies outside
  its array and the evaluation raises IndexError.
\<close>

theorem current_components_on_grid:
  "(y = 0 \<or> z = 0 \<longrightarrow> Ix x y z Hy Hz G = Inr 0) \<and>
   (x = 0 \<or> z = 0 \<longrightarrow> Iy x y z Hx Hz G = Inr 0) \<and>
   (x = 0 \<or> y = 0 \<longrightarrow> Iz x y z Hx Hy G = Inr 0) \<and>
   (has_shape Hx (nx G + 1) (ny G) (nz G) \<and> has_shape Hy (nx G) (ny G + 1) (nz G) \<and>
    has_shape Hz (nx G) (ny G) (nz G + 1) \<and>
    0 \<le> x \<and> x \<le> nx G \<and> 0 \<le> y \<and> y \<le> ny G \<and> 0 \<le> z \<and> z \<le> nz G \<longrightarrow>
      (y \<noteq> 0 \<and> z \<noteq> 0 \<longrightarrow>
         Ix x y z Hy Hz G =
           (if x < nx G \<and> y < ny G \<and> z < nz G
            then Inr (dy G * (Hy ! nat x ! nat y ! nat (z - 1) - Hy ! nat x ! nat y ! nat z) +
                      dz G * (Hz ! nat x ! nat y ! nat z - Hz ! nat x ! nat (y - 1) ! nat z))
            else Inl IndexError)) \<and>
      (x \<noteq> 0 \<and> z \<noteq> 0 \<longrightarrow>
         Iy x y z Hx Hz G =
           (if x < nx G \<and> y < ny G \<and> z < nz G
            then Inr (dx G * (Hx ! nat x ! nat y ! nat z - Hx ! nat x ! nat y ! nat (z - 1)) +
                      dz G * (Hz ! nat (x - 1) ! nat y ! nat z - Hz ! nat x ! nat y ! nat z))
            else Inl IndexError)) \<and>
      (x \<noteq> 0 \<and> y \<noteq> 0 \<longrightarrow>
         Iz x y z Hx Hy G =
           (if x < nx G \<and> y < ny G \<and> z < nz G
            then Inr (dx G * (Hx ! nat x ! nat (y - 1) ! nat z - Hx ! nat x ! nat y ! nat z) +
                      dy G * (Hy ! nat x ! nat y ! nat z - Hy ! nat (x - 1) ! nat y ! nat z))
            else Inl IndexError)))"
proof (intro conjI impI)
  show "Ix x y z Hy Hz G = Inr 0" if "y = 0 \<or> z = 0" using that by (simp add: Ix_def)
  show "Iy x y z Hx Hz G = Inr 0" if "x = 0 \<or> z = 0" using that by (simp add: Iy_def)
  show "Iz x y z Hx Hy G = Inr 0" if "x = 0 \<or> y = 0" using that by (simp add: Iz_def)
next
  assume h: "has_shape Hx (nx G + 1) (ny G) (nz G) \<and> has_shape Hy (nx G) (ny G + 1) (nz G) \<and>
    has_shape Hz (nx G) (ny G) (nz G + 1) \<and>
    0 \<le> x \<and> x \<le> nx G \<and> 0 \<le> y \<and> y \<le> ny G \<and> 0 \<le> z \<and> z \<le> nz G"
    and nz: "y \<noteq> 0 \<and> z \<noteq> 0"
  then have p: "0 \<le> x" "0 \<le> y" "0 \<le> z" "0 \<le> y - 1" "0 \<le> z - 1" by auto
  from h have sy: "has_shape Hy (nx G) (ny G + 1) (nz G)" and sz: "has_shape Hz (nx G) (ny G) (nz G + 1)"
    by auto
  show "Ix x y z Hy Hz G =
           (if x < nx G \<and> y < ny G \<and> z < nz G
            then Inr (dy G * (Hy ! nat x ! nat y ! nat (z - 1) - Hy ! nat x ! nat y ! nat z) +
                      dz G * (Hz ! nat x ! nat y ! nat z - Hz ! nat x ! nat (y - 1) ! nat z))
            else Inl IndexError)"
    using h nz
    by (simp add: Ix_def get3_shape [OF sy p(1) p(2) p(5)] get3_shape [OF sy p(1) p(2) p(3)]
        get3_shape [OF sz p(1) p(2) p(3)] get3_shape [OF sz p(1) p(4) p(3)])
next
  assume h: "has_shape Hx (nx G + 1) (ny G) (nz G) \<and> has_shape Hy (nx G) (ny G + 1) (nz G) \<and>
    has_shape Hz (nx G) (ny G) (nz G + 1) \<and>
    0 \<le> x \<and> x \<le> nx G \<and> 0 \<le> y \<and> y \<le> ny G \<and> 0 \<le> z \<and> z \<le> nz G"
    and nz: "x \<noteq> 0 \<and> z \<noteq> 0"
  then have p: "0 \<le> x" "0 \<le> y" "0 \<le> z" "0 \<le> x - 1" "0 \<le> z - 1" by auto
  from h have sx: "has_shape Hx (nx G + 1) (ny G) (nz G)" and sz: "has_shape Hz (nx G) (ny G) (nz G + 1)"
    by auto
  show "Iy x y z Hx Hz G =
           (if x < nx G \<and> y < ny G \<and> z < nz G
            then Inr (dx G * (Hx ! nat x ! nat y ! nat z - Hx ! nat x ! nat y ! nat (z - 1)) +
                      dz G * (Hz ! nat (x - 1) ! nat y ! nat z - Hz ! nat x ! nat y ! nat z))
            else Inl IndexError)"
    using h nz
    by (simp add: Iy_def get3_shape [OF sx p(1) p(2) p(3)] get3_shape [OF sx p(1) p(2) p(5)]
        get3_shape [OF sz p(4) p(2) p(3)] get3_shape [OF sz p(1) p(2) p(3)])
next
  assume h: "has_shape Hx (nx G + 1) (ny G) (nz G) \<and> has_shape Hy (nx G) (ny G + 1) (nz G) \<and>
    has_shape Hz (nx G) (ny G) (nz G + 1) \<and>
    0 \<le> x \<and> x \<le> nx G \<and> 0 \<le> y \<and> y \<le> ny G \<and> 0 \<le> z \<and> z \<le> nz G"
    and nz: "x \<noteq> 0 \<and> y \<noteq> 0"
  then have p: "0 \<le> x" "0 \<le> y" "0 \<le> z" "0 \<le> x - 1" "0 \<le> y - 1" by auto
  from h have sx: "has_shape Hx (nx G + 1) (ny G) (nz G)" and sy: "has_shape Hy (nx G) (ny G + 1) (nz G)"
    by auto
  show "Iz x y z Hx Hy G =
           (if x < nx G \<and> y < ny G \<and> z < nz G
            then Inr (dx G * (Hx ! nat x ! nat (y - 1) ! nat z - Hx ! nat x ! nat y ! nat z) +
                      dy G * (Hy ! nat x ! nat y ! nat z - Hy ! nat (x - 1) ! nat y ! nat z))
            else Inl IndexError)"
    using h nz
    by (simp add: Iz_def get3_shape [OF sx p(1) p(5) p(3)] get3_shape [OF sx p(1) p(2) p(3)]
        get3_shape [OF sy p(1) p(2) p(3)] get3_shape [OF sy p(4) p(2) p(3)])
qed

theorem current_components_on_grid_witness:
  "Ix 0 0 0 hy_field hz_field (unit_grid\<lparr>nx := 2, ny := 2, nz := 2\<rparr>) = Inr 0 \<and>
   Iy 0 0 0 hx_field hz_field (unit_grid\<lparr>nx := 2, ny := 2, nz := 2\<rparr>) = Inr 0 \<and>
   Iz 0 0 0 hx_field hy_field (unit_grid\<lparr>nx := 2, ny := 2, nz := 2\<rparr>) = Inr 0 \<and>
   Ix 1 1 1 hy_field hz_field (unit_grid\<lparr>nx := 2, ny := 2, nz := 2\<rparr>) = Inr 2 \<and>
   Iy 1 1 1 hx_field hz_field (unit_grid\<lparr>nx := 2, ny := 2, nz := 2\<rparr>) = Inr (- 5) \<and>
   Iz 1 1 1 hx_field hy_field (unit_grid\<lparr>nx := 2, ny := 2, nz := 2\<rparr>) = Inr 4 \<and>
   Ix 2 2 2 hy_field hz_field (unit_grid\<lparr>nx := 2, ny := 2, nz := 2\<rparr>) = Inl IndexError"
  using current_components_on_grid [where x = 0 and y = 0 and z = 0 and Hx = hx_field
      and Hy = hy_field and Hz = hz_field and G = "unit_grid\<lparr>nx := 2, ny := 2, nz := 2\<rparr>"]
    current_components_on_grid [where x = 1 and y = 1 and z = 1 and Hx = hx_field
      and Hy = hy_field and Hz = hz_field and G = "unit_grid\<lparr>nx := 2, ny := 2, nz := 2\<rparr>"]
    current_components_on_grid [where x = 2 and y = 2 and z = 2 and Hx = hx_field
      and Hy = hy_field and Hz = hz_field and G = "unit_grid\<lparr>nx := 2, ny := 2, nz := 2\<rparr>"]
  by (simp add: unit_grid_def FDTDGrid_def has_shape_def hx_field_def hy_field_def hz_field_def)

text \<open>
  The claim as the specification words it (the line integral at every grid position off
  the lower boundary) fails on the upper faces: on a grid of one cell the position
  \<open>(1, 1, 1)\<close> is within bounds, and all three components raise IndexError there.
\<close>

theorem current_components_upper_face:
  "has_shape [[[0]], [[0]]] (nx unit_grid + 1) (ny unit_grid) (nz unit_grid) \<and>
   has_shape [[[0], [0]]] (nx unit_grid) (ny unit_grid + 1) (nz unit_grid) \<and>
   has_shape [[[0, 0]]] (nx unit_grid) (ny unit_grid) (nz unit_grid + 1) \<and>
   within_bounds unit_grid [(''x'', 1), (''y'', 1), (''z'', 1)] = Inr unit_grid \<and>
   Ix 1 1 1 [[[0], [0]]] [[[0, 0]]] unit_grid = Inl IndexError \<and>
   Iy 1 1 1 [[[0]], [[0]]] [[[0, 0]]] unit_grid = Inl IndexError \<and>
   Iz 1 1 1 [[[0]], [[0]]] [[[0], [0]]] unit_grid = Inl IndexError"
  by (simp add: unit_grid_def FDTDGrid_def getattr_n_def Ix_def Iy_def Iz_def get3_def np_index_def
      has_shape_def)

section \<open>Numerical dispersion check\<close>

lemma py_max_Max:
  assumes "xs \<noteq> []"
  shows "py_max xs = Inr (Max (set xs))"
proof (cases xs)
  case Nil
  with assms show ?thesis by simp
next
  case (Cons x ys)
  have "fold max ys x = Max (set (x # ys))" by (simp only: Max.set_eq_fold)
  with Cons show ?thesis by (simp add: py_max_def)
qed

lemma find_maxfreqs_sines:
  assumes "\<forall>w\<in>set ws. type w = ''sine'' \<or> type w = ''contsine'' \<or> type w = ''impulse'' \<or> type w = ''zero''"
  shows "find_maxfreqs spectrum G ws acc =
    Inr (acc @ map (\<lambda>w. 4 * freq w) (filter (\<lambda>w. type w = ''sine'' \<or> type w = ''contsine'') ws))"
  using assms by (induction ws arbitrary: acc) auto

text \<open>
  Claim C10. \<open>dispersion_check\<close> returns \<open>False\<close> when the waveform list is empty or
  holds only waveforms of type impulse or zero. When every waveform is a sine, a
  contsine, an impulse or a zero, at least one sine or contsine of positive frequency is
  present, the catalogue has a material of positive relative permittivity and the speed
  of light is positive, it returns the positive number
  \<open>(c / sqrt (max er)) / (10 \<cdot> max (4 \<cdot> f))\<close>, the maxima being taken over the materials
  and over the sine and contsine waveforms.
\<close>

theorem dispersion_check_sine:
  "((\<forall>w\<in>set (waveforms G). type w = ''impulse'' \<or> type w = ''zero'') \<longrightarrow>
      dispersion_check c spectrum G = Inr RFalse) \<and>
   ((\<forall>w\<in>set (waveforms G). type w = ''sine'' \<or> type w = ''contsine'' \<or> type w = ''impulse'' \<or> type w = ''zero'') \<and>
    (\<exists>w\<in>set (waveforms G). (type w = ''sine'' \<or> type w = ''contsine'') \<and> 0 < freq w) \<and>
    (\<exists>m\<in>set (materials G). 0 < er m) \<and> 0 < c \<longrightarrow>
      dispersion_check c spectrum G =
        Inr (RFloat ((c / sqrt (Max (er ` set (materials G)))) /
                     (10 * Max ((\<lambda>w. 4 * freq w) ` set (filter (\<lambda>w. type w = ''sine'' \<or> type w = ''contsine'') (waveforms G)))))) \<and>
      0 < (c / sqrt (Max (er ` set (materials G)))) /
                     (10 * Max ((\<lambda>w. 4 * freq w) ` set (filter (\<lambda>w. type w = ''sine'' \<or> type w = ''contsine'') (waveforms G)))))"
proof (intro conjI impI)
  assume a: "\<forall>w\<in>set (waveforms G). type w = ''impulse'' \<or> type w = ''zero''"
  then have "\<forall>w\<in>set (waveforms G). type w = ''sine'' \<or> type w = ''contsine'' \<or> type w = ''impulse'' \<or> type w = ''zero''"
    by blast
  then have "find_maxfreqs spectrum G (waveforms G) [] =
      Inr ([] @ map (\<lambda>w. 4 * freq w) (filter (\<lambda>w. type w = ''sine'' \<or> type w = ''contsine'') (waveforms G)))"
    by (rule find_maxfreqs_sines)
  moreover have "filter (\<lambda>w. type w = ''sine'' \<or> type w = ''contsine'') (waveforms G) = []"
    using a by (auto simp: filter_empty_conv)
  ultimately show "dispersion_check c spectrum G = Inr RFalse"
    by (simp add: dispersion_check_def)
next
  assume h: "(\<forall>w\<in>set (waveforms G). type w = ''sine'' \<or> type w = ''contsine'' \<or> type w = ''impulse'' \<or> type w = ''zero'') \<and>
    (\<exists>w\<in>set (waveforms G). (type w = ''sine'' \<or> type w = ''contsine'') \<and> 0 < freq w) \<and>
    (\<exists>m\<in>set (materials G). 0 < er m) \<and> 0 < c"
  let ?sines = "filter (\<lambda>w. type w = ''sine'' \<or> type w = ''contsine'') (waveforms G)"
  let ?mf = "map (\<lambda>w. 4 * freq w) ?sines"
  let ?F = "(\<lambda>w. 4 * freq w) ` set (filter (\<lambda>w. type w = ''sine'' \<or> type w = ''contsine'') (waveforms G))"
  let ?E = "er ` set (materials G)"
  have loop: "find_maxfreqs spectrum G (waveforms G) [] = Inr ?mf"
    using h find_maxfreqs_sines [of "waveforms G" spectrum G "[]"] by simp
  have setmf: "set ?mf = ?F" by auto
  have ne: "?mf \<noteq> []" using h by (auto simp: filter_empty_conv)
  have mf: "py_max ?mf = Inr (Max ?F)" using py_max_Max [OF ne] setmf by simp
  have mne: "map er (materials G) \<noteq> []" using h by auto
  have me: "py_max (map er (materials G)) = Inr (Max ?E)" using py_max_Max [OF mne] by simp
  have Fpos: "0 < Max ?F"
  proof -
    from h obtain w where "w \<in> set (waveforms G)" "type w = ''sine'' \<or> type w = ''contsine''" "0 < freq w"
      by blast
    then have "4 * freq w \<in> ?F" "0 < 4 * freq w" by auto
    moreover have "finite ?F" by simp
    ultimately show ?thesis using Max_ge [of ?F "4 * freq w"] by linarith
  qed
  have Epos: "0 < Max ?E"
  proof -
    from h obtain m where "m \<in> set (materials G)" "0 < er m" by blast
    then have "er m \<in> ?E" by simp
    moreover have "finite ?E" by simp
    ultimately show ?thesis using \<open>0 < er m\<close> Max_ge [of ?E "er m"] by linarith
  qed
  show "dispersion_check c spectrum G = Inr (RFloat ((c / sqrt (Max ?E)) / (10 * Max ?F)))"
    using loop ne mf me Fpos Epos by (simp add: dispersion_check_def)
  show "0 < (c / sqrt (Max ?E)) / (10 * Max ?F)"
    using Fpos Epos h by simp
qed


theorem dispersion_check_sine_witness:
  "dispersion_check 299792458 (\<lambda>G w. Inl TypeError)
     (FDTDGrid\<lparr>waveforms := [\<lparr>type = ''impulse'', freq = 1, uservalues = []\<rparr>]\<rparr>) = Inr RFalse \<and>
   dispersion_check 299792458 (\<lambda>G w. Inl TypeError)
     (FDTDGrid\<lparr>materials := [free_space, wet_sand],
               waveforms := [\<lparr>type = ''sine'', freq = 1, uservalues = []\<rparr>,
                             \<lparr>type = ''impulse'', freq = 3, uservalues = []\<rparr>,
                             \<lparr>type = ''contsine'', freq = 2, uservalues = []\<rparr>]\<rparr>)
     = Inr (RFloat (149896229 / 80))"
  using dispersion_check_sine [of "FDTDGrid\<lparr>waveforms := [\<lparr>type = ''impulse'', freq = 1, uservalues = []\<rparr>]\<rparr>"
      299792458 "\<lambda>G w. Inl TypeError"]
    dispersion_check_sine [of "FDTDGrid\<lparr>materials := [free_space, wet_sand],
               waveforms := [\<lparr>type = ''sine'', freq = 1, uservalues = []\<rparr>,
                             \<lparr>type = ''impulse'', freq = 3, uservalues = []\<rparr>,
                             \<lparr>type = ''contsine'', freq = 2, uservalues = []\<rparr>]\<rparr>"
      299792458 "\<lambda>G w. Inl TypeError"]
  by (simp add: FDTDGrid_def free_space_def wet_sand_def)

section \<open>Materials of voltage sources with resistance\<close>

















section \<open>Stepping sources and receivers\<close>

text \<open>
  Claim C5, as the code has it. For every model run number \<open>k\<close>: if one of
  \<open>srcstepx\<close>, \<open>srcstepy\<close>, \<open>srcstepz\<close> is positive, every Hertzian dipole, magnetic
  dipole and voltage source is displaced by \<open>(k - 1) \<cdot> srcstep\<close> cells along each
  axis, and otherwise these sources are unchanged; if one of \<open>rxstepx\<close>, \<open>rxstepy\<close>,
  \<open>rxstepz\<close> is positive, every receiver is displaced by \<open>(k - 1) \<cdot> rxstep\<close> cells
  along each axis, and otherwise the receivers are unchanged.
\<close>

theorem adjust_positions_steps:
  "hertziandipoles (adjust_positions k G) =
     (if srcstepx G > 0 \<or> srcstepy G > 0 \<or> srcstepz G > 0
      then map (\<lambda>s. s\<lparr>positionx := positionx s + (k - 1) * srcstepx G,
                       positiony := positiony s + (k - 1) * srcstepy G,
                       positionz := positionz s + (k - 1) * srcstepz G\<rparr>) (hertziandipoles G)
      else hertziandipoles G) \<and>
   magneticdipoles (adjust_positions k G) =
     (if srcstepx G > 0 \<or> srcstepy G > 0 \<or> srcstepz G > 0
      then map (\<lambda>s. s\<lparr>positionx := positionx s + (k - 1) * srcstepx G,
                       positiony := positiony s + (k - 1) * srcstepy G,
                       positionz := positionz s + (k - 1) * srcstepz G\<rparr>) (magneticdipoles G)
      else magneticdipoles G) \<and>
   voltagesources (adjust_positions k G) =
     (if srcstepx G > 0 \<or> srcstepy G > 0 \<or> srcstepz G > 0
      then map (\<lambda>s. s\<lparr>positionx := positionx s + (k - 1) * srcstepx G,
                       positiony := positiony s + (k - 1) * srcstepy G,
                       positionz := positionz s + (k - 1) * srcstepz G\<rparr>) (voltagesources G)
      else voltagesources G) \<and>
   rxs (adjust_positions k G) =
     (if rxstepx G > 0 \<or> rxstepy G > 0 \<or> rxstepz G > 0
      then map (\<lambda>r. r\<lparr>positionx := positionx r + (k - 1) * rxstepx G,
                       positiony := positiony r + (k - 1) * rxstepy G,
                       positionz := positionz r + (k - 1) * rxstepz G\<rparr>) (rxs G)
      else rxs G)"
  by (simp add: adjust_positions_def Let_def step_source_def step_receiver_def fun_eq_iff)

theorem adjust_positions_steps_witness:
  "map positionx (hertziandipoles (adjust_positions 3 bscan_grid)) = [5] \<and>
   map positionx (rxs (adjust_positions 3 bscan_grid)) = [3]"
  using adjust_positions_steps [of 3 bscan_grid]
  by (simp add: bscan_grid_def FDTDGrid_def)

text \<open>
  The claim as the specification words it (every source is displaced) fails for a
  transmission-line source: with \<open>srcstepx = 2\<close> and model run 2 it stays at
  \<open>x = 4\<close> instead of moving to \<open>x = 6\<close>.
\<close>

theorem transmissionline_not_stepped:
  "0 < srcstepx bscan_grid \<and>
   map positionx (transmissionlines bscan_grid) = [4] \<and>
   map positionx (transmissionlines (adjust_positions 2 bscan_grid)) = [4] \<and>
   map positionx (transmissionlines (adjust_positions 2 bscan_grid)) \<noteq>
     [4 + (2 - 1) * srcstepx bscan_grid]"
  by (simp add: adjust_positions_def bscan_grid_def FDTDGrid_def)

section \<open>The schedule of the main loop\<close>

lemma calls_perform: "calls (perform K c st) = calls st @ [c]"
  by (simp add: perform_def)

lemma abstime_perform: "abstime (perform K c st) = abstime st"
  by (simp add: perform_def)

lemma fold_perform:
  "calls (fold (perform K) cs st) = calls st @ cs \<and> abstime (fold (perform K) cs st) = abstime st"
  by (induction cs arbitrary: st) (simp_all add: calls_perform abstime_perform)

lemma fold_update_fields:
  "calls (fold (\<lambda>v st. perform K (cf v (abstime st) n) st) vs st) =
     calls st @ map (\<lambda>v. cf v (abstime st) n) vs \<and>
   abstime (fold (\<lambda>v st. perform K (cf v (abstime st) n) st) vs st) = abstime st"
  by (induction vs arbitrary: st) (simp_all add: calls_perform abstime_perform)

lemma fold_snapshots:
  "calls (fold (\<lambda>s st. if P s then perform K (write_snapshot s) st else st) ss st) =
     calls st @ map write_snapshot (filter P ss) \<and>
   abstime (fold (\<lambda>s st. if P s then perform K (write_snapshot s) st else st) ss st) = abstime st"
  by (induction ss arbitrary: st) (simp_all add: calls_perform abstime_perform)

lemma if_nonempty_fold: "(if xs \<noteq> [] then fold f xs st else st) = fold f xs st"
  by (cases xs) simp_all

lemma timestep_body_calls:
  "calls (timestep_body K G maxpoles n st) = calls st @ step_calls G maxpoles n (abstime st) \<and>
   abstime (timestep_body K G maxpoles n st) = abstime st + dt G"
  unfolding timestep_body_def Let_def if_nonempty_fold step_calls_def
  by (simp add: fold_perform fold_update_fields fold_snapshots calls_perform abstime_perform)

lemma steps_calls:
  "calls (fold (timestep_body K G maxpoles) [0..<N] st) =
     calls st @ concat (map (\<lambda>n. step_calls G maxpoles n (abstime st + of_nat n * dt G)) [0..<N]) \<and>
   abstime (fold (timestep_body K G maxpoles) [0..<N] st) = abstime st + of_nat N * dt G"
proof (induction N)
  case 0
  show ?case by simp
next
  case (Suc N)
  then show ?case
    by (simp add: timestep_body_calls algebra_simps)
qed

lemma main_loop_calls:
  "calls (main_loop K G maxpoles F) =
     concat (map (\<lambda>n. step_calls G maxpoles n (of_nat n * dt G)) [0..<nat (iterations G)]) \<and>
   abstime (main_loop K G maxpoles F) = of_nat (nat (iterations G)) * dt G"
  using steps_calls [of K G maxpoles "nat (iterations G)" "\<lparr>abstime = 0, arrays = F, calls = []\<rparr>"]
  by (simp add: main_loop_def)

lemma filter_write_output_step: "filter is_write_output (step_calls G maxpoles n t) = [write_output n]"
  by (simp add: step_calls_def filter_map o_def)

lemma concat_singletons: "concat (map (\<lambda>n. [f n]) xs) = map f xs"
  by (induction xs) simp_all

text \<open>
  Claim C1. The calls of a run are, for each timestep \<open>n\<close> from 0 to
  \<open>iterations - 1\<close> in turn, exactly this sequence: the receiver output for step
  \<open>n\<close>; the snapshots whose time is \<open>n + 1\<close>; the first pass of the electric update
  (one-pole, multipole or standard); the electric PML correction; the voltage sources
  and then the Hertzian dipoles, each with the absolute time \<open>n \<cdot> dt\<close>; the second
  dispersive pass when \<open>maxpoles\<close> is 1 or more; the magnetic update; the magnetic PML
  correction; the magnetic dipoles with the absolute time \<open>(n + 1/2) \<cdot> dt\<close>. The
  accumulator \<open>abstime\<close> is \<open>n \<cdot> dt\<close> at the start of timestep \<open>n\<close> and
  \<open>iterations \<cdot> dt\<close> at the end of the run.
\<close>

theorem main_loop_schedule:
  "calls (main_loop K G maxpoles F) =
     concat (map (\<lambda>n.
       [write_output n] @
       map write_snapshot (filter (\<lambda>s. time s = int n + 1) (snapshots G)) @
       (if maxpoles = 1
        then [update_ex_dispersive_1pole_A, update_ey_dispersive_1pole_A, update_ez_dispersive_1pole_A]
        else if maxpoles > 1
        then [update_ex_dispersive_multipole_A maxpoles, update_ey_dispersive_multipole_A maxpoles,
              update_ez_dispersive_multipole_A maxpoles]
        else [update_ex, update_ey, update_ez]) @
       [update_pml_electric] @
       map (\<lambda>v. voltagesource_update_fields v (of_nat n * dt G) n) (voltagesources G) @
       map (\<lambda>h. hertziandipole_update_fields h (of_nat n * dt G) n) (hertziandipoles G) @
       (if maxpoles = 1
        then [update_ex_dispersive_1pole_B, update_ey_dispersive_1pole_B, update_ez_dispersive_1pole_B]
        else if maxpoles > 1
        then [update_ex_dispersive_multipole_B maxpoles, update_ey_dispersive_multipole_B maxpoles,
              update_ez_dispersive_multipole_B maxpoles]
        else []) @
       [update_hx, update_hy, update_hz, update_pml_magnetic] @
       map (\<lambda>m. magneticdipole_update_fields m ((of_nat n + 1 / 2) * dt G) n) (magneticdipoles G))
     [0..<nat (iterations G)]) \<and>
   (\<forall>n \<le> nat (iterations G).
      abstime (fold (timestep_body K G maxpoles) [0..<n] \<lparr>abstime = 0, arrays = F, calls = []\<rparr>) =
        of_nat n * dt G) \<and>
   abstime (main_loop K G maxpoles F) = of_nat (nat (iterations G)) * dt G"
proof -
  have "step_calls G maxpoles n (of_nat n * dt G) =
       [write_output n] @
       map write_snapshot (filter (\<lambda>s. time s = int n + 1) (snapshots G)) @
       (if maxpoles = 1
        then [update_ex_dispersive_1pole_A, update_ey_dispersive_1pole_A, update_ez_dispersive_1pole_A]
        else if maxpoles > 1
        then [update_ex_dispersive_multipole_A maxpoles, update_ey_dispersive_multipole_A maxpoles,
              update_ez_dispersive_multipole_A maxpoles]
        else [update_ex, update_ey, update_ez]) @
       [update_pml_electric] @
       map (\<lambda>v. voltagesource_update_fields v (of_nat n * dt G) n) (voltagesources G) @
       map (\<lambda>h. hertziandipole_update_fields h (of_nat n * dt G) n) (hertziandipoles G) @
       (if maxpoles = 1
        then [update_ex_dispersive_1pole_B, update_ey_dispersive_1pole_B, update_ez_dispersive_1pole_B]
        else if maxpoles > 1
        then [update_ex_dispersive_multipole_B maxpoles, update_ey_dispersive_multipole_B maxpoles,
              update_ez_dispersive_multipole_B maxpoles]
        else []) @
       [update_hx, update_hy, update_hz, update_pml_magnetic] @
       map (\<lambda>m. magneticdipole_update_fields m ((of_nat n + 1 / 2) * dt G) n) (magneticdipoles G)"
    for n
    unfolding step_calls_def by (simp add: algebra_simps)
  then show ?thesis
    using main_loop_calls [of K G maxpoles F]
      steps_calls [of K G maxpoles _ "\<lparr>abstime = 0, arrays = F, calls = []\<rparr>"]
    by simp
qed

theorem main_loop_schedule_witness:
  "calls (main_loop (\<lambda>c F. F) loop_grid 1 ()) =
     [write_output 0,
      update_ex_dispersive_1pole_A, update_ey_dispersive_1pole_A, update_ez_dispersive_1pole_A,
      update_pml_electric,
      voltagesource_update_fields gap_source 0 0, hertziandipole_update_fields dipole 0 0,
      update_ex_dispersive_1pole_B, update_ey_dispersive_1pole_B, update_ez_dispersive_1pole_B,
      update_hx, update_hy, update_hz, update_pml_magnetic,
      magneticdipole_update_fields dipole 1 0,
      write_output 1, write_snapshot \<lparr>time = 2\<rparr>,
      update_ex_dispersive_1pole_A, update_ey_dispersive_1pole_A, update_ez_dispersive_1pole_A,
      update_pml_electric,
      voltagesource_update_fields gap_source 2 1, hertziandipole_update_fields dipole 2 1,
      update_ex_dispersive_1pole_B, update_ey_dispersive_1pole_B, update_ez_dispersive_1pole_B,
      update_hx, update_hy, update_hz, update_pml_magnetic,
      magneticdipole_update_fields dipole 3 1] \<and>
   abstime (main_loop (\<lambda>c F. F) loop_grid 1 ()) = 4"
  using main_loop_schedule [of "\<lambda>c F. F" loop_grid 1 "()"]
  by (simp add: loop_grid_def FDTDGrid_def numeral_2_eq_2)

text \<open>
  Claim C6. In every timestep, which interior updates of the electric field are called
  depends on \<open>maxpoles\<close> alone: for \<open>maxpoles = 1\<close> the three one-pole A updates and
  the three one-pole B updates; for \<open>maxpoles > 1\<close> the three multipole A updates and
  the three multipole B updates; otherwise, so for \<open>maxpoles = 0\<close>, the three standard
  updates and no dispersive pass.
\<close>

theorem e_update_selection:
  "filter is_e_update (drop (length (calls st)) (calls (timestep_body K G maxpoles n st))) =
     (if maxpoles = 1
      then [update_ex_dispersive_1pole_A, update_ey_dispersive_1pole_A, update_ez_dispersive_1pole_A,
            update_ex_dispersive_1pole_B, update_ey_dispersive_1pole_B, update_ez_dispersive_1pole_B]
      else if maxpoles > 1
      then [update_ex_dispersive_multipole_A maxpoles, update_ey_dispersive_multipole_A maxpoles,
            update_ez_dispersive_multipole_A maxpoles,
            update_ex_dispersive_multipole_B maxpoles, update_ey_dispersive_multipole_B maxpoles,
            update_ez_dispersive_multipole_B maxpoles]
      else [update_ex, update_ey, update_ez])"
  by (simp add: timestep_body_calls step_calls_def filter_map o_def)

theorem e_update_selection_witness:
  "filter is_e_update (calls (timestep_body (\<lambda>c F. F) loop_grid 0 0 \<lparr>abstime = 0, arrays = (), calls = []\<rparr>)) =
     [update_ex, update_ey, update_ez] \<and>
   filter is_e_update (calls (timestep_body (\<lambda>c F. F) loop_grid 1 0 \<lparr>abstime = 0, arrays = (), calls = []\<rparr>)) =
     [update_ex_dispersive_1pole_A, update_ey_dispersive_1pole_A, update_ez_dispersive_1pole_A,
      update_ex_dispersive_1pole_B, update_ey_dispersive_1pole_B, update_ez_dispersive_1pole_B] \<and>
   filter is_e_update (calls (timestep_body (\<lambda>c F. F) loop_grid 3 0 \<lparr>abstime = 0, arrays = (), calls = []\<rparr>)) =
     [update_ex_dispersive_multipole_A 3, update_ey_dispersive_multipole_A 3,
      update_ez_dispersive_multipole_A 3,
      update_ex_dispersive_multipole_B 3, update_ey_dispersive_multipole_B 3,
      update_ez_dispersive_multipole_B 3]"
  using e_update_selection [of "\<lparr>abstime = 0, arrays = (), calls = []\<rparr>" "\<lambda>c F. F" loop_grid 0 0]
    e_update_selection [of "\<lparr>abstime = 0, arrays = (), calls = []\<rparr>" "\<lambda>c F. F" loop_grid 1 0]
    e_update_selection [of "\<lparr>abstime = 0, arrays = (), calls = []\<rparr>" "\<lambda>c F. F" loop_grid 3 0]
  by simp

text \<open>
  Claim C2, as the code has it. The loop does not look at the field values: whatever
  the called functions write into the arrays, the calls of a run are the same, and the
  receiver output is written for every timestep from 0 to \<open>iterations - 1\<close>; no
  timestep is skipped and the run is not cut short.
\<close>

theorem main_loop_no_check:
  "calls (main_loop K G maxpoles F) = calls (main_loop K' G maxpoles F') \<and>
   filter is_write_output (calls (main_loop K G maxpoles F)) =
     map write_output [0..<nat (iterations G)]"
  by (simp add: main_loop_calls filter_concat o_def filter_write_output_step concat_singletons)

theorem main_loop_no_check_witness:
  "calls (main_loop unstable_kernel two_step_grid 0 zero_fields) =
     calls (main_loop (\<lambda>c F. F) two_step_grid 0 ()) \<and>
   filter is_write_output (calls (main_loop unstable_kernel two_step_grid 0 zero_fields)) =
     [write_output 0, write_output 1]"
proof -
  have steps: "[0..<nat (iterations two_step_grid)] = [0, 1]"
    by (simp add: two_step_grid_def FDTDGrid_def numeral_2_eq_2)
  show ?thesis
    using main_loop_no_check [of unstable_kernel two_step_grid 0 zero_fields "\<lambda>c F. F" "()"]
    unfolding steps list.map .
qed

text \<open>
  The claim as the specification words it (a nan or inf in a field at the end of a
  timestep aborts the run) fails: with an \<open>Ex\<close> update that writes nan, the field
  arrays hold a nan at the end of timestep 0, and the loop goes on to make every call
  of timestep 1.
\<close>

theorem main_loop_continues_with_nan:
  "initialise_field_arrays two_step_grid = Inr zero_fields \<and>
   \<not> has_nonfinite zero_fields \<and>
   has_nonfinite (arrays (timestep_body unstable_kernel two_step_grid 0 0
      \<lparr>abstime = 0, arrays = zero_fields, calls = []\<rparr>)) \<and>
   calls (main_loop unstable_kernel two_step_grid 0 zero_fields) =
     [write_output 0, update_ex, update_ey, update_ez, update_pml_electric,
      update_hx, update_hy, update_hz, update_pml_magnetic,
      write_output 1, update_ex, update_ey, update_ez, update_pml_electric,
      update_hx, update_hy, update_hz, update_pml_magnetic]"
  by (simp add: initialise_field_arrays_def np_full3_def two_step_grid_def FDTDGrid_def zero_fields_def
      has_nonfinite_def nonfinite_in_def timestep_body_def perform_def main_loop_def
      numeral_2_eq_2 upt_rec)

end
